theory Spec2Isabelle
  imports Main "HOL-Library.Sublist"
begin

text \<open>
  The GitLab importer: the request executor, the project resolver, the issue fetcher and the
  mapping functions of \<^verbatim>\<open>importers/gitlab/client.ts\<close>, the aggregator
  \<^verbatim>\<open>GitLabImporter.import\<close>, and the status derivation of the second copy of the client
  module.  A JavaScript string is modelled as a \<open>string\<close>; the code compares, searches and
  concatenates strings and never measures them.  A rejected promise is a value \<open>Inl e\<close>.
\<close>

section \<open>JavaScript plain objects used as lookup tables\<close>

text \<open>
  Every table of \<^verbatim>\<open>client.ts\<close> is an object literal \<^verbatim>\<open>{}\<close> filled by assignments.  Such an
  object inherits from \<^verbatim>\<open>Object.prototype\<close>: both the \<^verbatim>\<open>in\<close> operator and a property read
  \<^verbatim>\<open>obj[key]\<close> consult the own properties first and the prototype next.  The names below are the
  properties of \<^verbatim>\<open>Object.prototype\<close> (ECMAScript, with the legacy accessors of its Annex B).
\<close>

definition objectPrototypeKeys :: "string list" where
  "objectPrototypeKeys =
     [''constructor'', ''__defineGetter__'', ''__defineSetter__'', ''hasOwnProperty'',
      ''__lookupGetter__'', ''__lookupSetter__'', ''isPrototypeOf'', ''propertyIsEnumerable'',
      ''toString'', ''valueOf'', ''__proto__'', ''toLocaleString'']"

text \<open>
  The result of reading a property: a value the table itself holds, or the member of
  \<^verbatim>\<open>Object.prototype\<close> of that name (a function object, or the prototype object itself for
  \<^verbatim>\<open>__proto__\<close>).
\<close>

datatype 'v looked_up = Own 'v | Inherited string

type_synonym 'v js_object = "string \<rightharpoonup> 'v"

text \<open>
  \<^verbatim>\<open>obj[key]\<close>; \<open>None\<close> is \<^verbatim>\<open>undefined\<close>.  No table stores \<^verbatim>\<open>undefined\<close>, so
  \<^verbatim>\<open>key in obj\<close> holds exactly when the read is not \<open>None\<close>.
\<close>

definition getProperty :: "'v js_object \<Rightarrow> string \<Rightarrow> 'v looked_up option" where
  "getProperty obj key =
     (case obj key of
        Some v \<Rightarrow> Some (Own v)
      | None \<Rightarrow> if key \<in> set objectPrototypeKeys then Some (Inherited key) else None)"

text \<open>
  The conversion of a value to a property key (\<^verbatim>\<open>ToPropertyKey\<close>): a string is its own key, a
  built-in function converts to its source text, the prototype object to \<^verbatim>\<open>[object Object]\<close>.
\<close>

fun toPropertyKey :: "string looked_up \<Rightarrow> string" where
  "toPropertyKey (Own s) = s"
| "toPropertyKey (Inherited n) =
     (if n = ''__proto__'' then ''[object Object]''
      else if n = ''constructor'' then ''function Object() { [native code] }''
      else ''function '' @ n @ ''() { [native code] }'')"


section \<open>Status derivation\<close>

text \<open>The table \<^verbatim>\<open>statuses\<close> of \<^verbatim>\<open>mapStatusFromLabels\<close> in \<^verbatim>\<open>client.ts\<close>.\<close>

definition statuses :: "string js_object" where
  "statuses = Map.empty
     (''Status::On hold'' \<mapsto> ''Backlog'',
      ''Needs attention'' \<mapsto> ''Backlog'',
      ''Status::Review'' \<mapsto> ''Review'',
      ''Status::Estimate'' \<mapsto> ''Estimate'',
      ''Status::Refinement'' \<mapsto> ''Backlog'',
      ''Status::Ready for Release'' \<mapsto> ''Done'',
      ''Status::Approved Internally'' \<mapsto> ''Done'',
      ''Status::In progress'' \<mapsto> ''In Progress'',
      ''Status::To-do'' \<mapsto> ''Todo'')"

text \<open>The table of the second copy of the client module (\<^verbatim>\<open>src/unnamed/part_001\<close>).\<close>

definition statuses_part_001 :: "string js_object" where
  "statuses_part_001 = Map.empty
     (''Status::On hold'' \<mapsto> ''Todo'',
      ''Status::Review'' \<mapsto> ''Review'',
      ''Status::Estimate'' \<mapsto> ''Estimate'',
      ''Status::Refinement'' \<mapsto> ''Todo'',
      ''Status::Ready for Release'' \<mapsto> ''Done'',
      ''Status::Approved Internally'' \<mapsto> ''Review'',
      ''Status::In progress'' \<mapsto> ''In Progress'',
      ''Status::To-do'' \<mapsto> ''Todo'')"

text \<open>
  \<^verbatim>\<open>labels.forEach(label => { if (label in table) { newStatus = table[label]; return; } })\<close>:
  the \<^verbatim>\<open>return\<close> leaves the callback only, so every label is visited and each hit overwrites
  \<^verbatim>\<open>newStatus\<close>.
\<close>

fun forEachLabel :: "string js_object \<Rightarrow> string list \<Rightarrow> string looked_up \<Rightarrow> string looked_up" where
  "forEachLabel table [] newStatus = newStatus"
| "forEachLabel table (label # rest) newStatus =
     forEachLabel table rest
       (case getProperty table label of Some v \<Rightarrow> v | None \<Rightarrow> newStatus)"

definition mapStatusFromLabels :: "string list \<Rightarrow> string looked_up" where
  "mapStatusFromLabels labels = forEachLabel statuses labels (Own ''backlog'')"

definition mapStatusFromLabels_part_001 :: "string list \<Rightarrow> string looked_up" where
  "mapStatusFromLabels_part_001 labels = forEachLabel statuses_part_001 labels (Own ''backlog'')"


section \<open>Substrings\<close>

fun startsWith :: "'a list \<Rightarrow> 'a list \<Rightarrow> bool" where
  "startsWith [] s = True"
| "startsWith (p # ps) [] = False"
| "startsWith (p # ps) (c # cs) = (if p = c then startsWith ps cs else False)"

text \<open>
  The text before and after the first occurrence of a pattern, \<open>None\<close> when there is none
  (\<^verbatim>\<open>indexOf\<close> on strings, as \<^verbatim>\<open>includes\<close> and \<^verbatim>\<open>replace\<close> use it).
\<close>

fun splitAtFirst :: "'a list \<Rightarrow> 'a list \<Rightarrow> ('a list \<times> 'a list) option" where
  "splitAtFirst pat [] = (if pat = [] then Some ([], []) else None)"
| "splitAtFirst pat (c # cs) =
     (if startsWith pat (c # cs) then Some ([], drop (length pat) (c # cs))
      else (case splitAtFirst pat cs of
              None \<Rightarrow> None
            | Some (pre, post) \<Rightarrow> Some (c # pre, post)))"

definition includes_str :: "string \<Rightarrow> string \<Rightarrow> bool" where
  "includes_str s pat = (case splitAtFirst pat s of None \<Rightarrow> False | Some _ \<Rightarrow> True)"


section \<open>Priority derivation\<close>

definition priorityMap :: "int js_object" where
  "priorityMap = Map.empty
     (''Prio :: Web'' \<mapsto> 0,
      ''Prio :: 1'' \<mapsto> 2,
      ''Prio :: 2'' \<mapsto> 3,
      ''Prio :: 3'' \<mapsto> 4)"

text \<open>
  \<^verbatim>\<open>labels.find(...) || 0\<close> is the label found, or the number 0 whose property key is
  \<^verbatim>\<open>"0"\<close>; \<^verbatim>\<open>priorityMap[...] || 0\<close> replaces \<^verbatim>\<open>undefined\<close> and the falsy rank 0 by 0.
\<close>

definition mapPriority :: "string list \<Rightarrow> int looked_up" where
  "mapPriority labels =
     (let matchedPrioLabel =
            (case find (\<lambda>label. includes_str label ''Prio :: '') labels of
               Some label \<Rightarrow> label
             | None \<Rightarrow> ''0'')
      in case getProperty priorityMap matchedPrioLabel of
           None \<Rightarrow> Own 0
         | Some (Own rank) \<Rightarrow> if rank = 0 then Own 0 else Own rank
         | Some (Inherited n) \<Rightarrow> Inherited n)"


section \<open>Label normalization\<close>

definition removableLabels :: "string list" where
  "removableLabels =
     [''Prio :: Web'', ''Prio :: 1'', ''Prio :: 2'', ''Prio :: 3'',
      ''Status::On hold'', ''Status::Review'', ''Status::Estimate'',
      ''Status::Ready for Release'', ''Status::Approved Internally'',
      ''Status::In progress'', ''Status::To-do'',
      ''Env :: Fieldpiece'', ''Env :: My.Fieldpiece'', ''Env :: University'',
      ''Env :: Brandportal'']"

definition GitlabLabelsToLinearLabels :: "string js_object" where
  "GitlabLabelsToLinearLabels = Map.empty
     (''Type::Bug'' \<mapsto> ''Bug'',
      ''Type::Epic'' \<mapsto> ''Epic'',
      ''Type::Feature'' \<mapsto> ''Feature'',
      ''Type::Optimization'' \<mapsto> ''Optimization'',
      ''Status::Refinement'' \<mapsto> ''Refinement'',
      ''Frontend'' \<mapsto> ''Front-end'',
      ''Backend'' \<mapsto> ''Back-end'')"

text \<open>\<^verbatim>\<open>labels.indexOf(x, 0)\<close>: the first index holding a value strictly equal to \<open>x\<close>.\<close>

fun indexOf :: "'a list \<Rightarrow> 'a \<Rightarrow> nat option" where
  "indexOf [] x = None"
| "indexOf (y # ys) x = (if y = x then Some 0 else map_option Suc (indexOf ys x))"

text \<open>\<^verbatim>\<open>labels.splice(index, 1)\<close>.\<close>

definition splice1 :: "nat \<Rightarrow> 'a list \<Rightarrow> 'a list" where
  "splice1 index xs = take index xs @ drop (Suc index) xs"

text \<open>The first loop of \<^verbatim>\<open>mapLabels\<close>: one \<^verbatim>\<open>indexOf\<close> and at most one \<^verbatim>\<open>splice\<close> per removable label.\<close>

fun removeLoop :: "string list \<Rightarrow> string looked_up list \<Rightarrow> string looked_up list" where
  "removeLoop [] labels = labels"
| "removeLoop (r # rs) labels =
     removeLoop rs
       (case indexOf labels (Own r) of
          Some index \<Rightarrow> splice1 index labels
        | None \<Rightarrow> labels)"

text \<open>The body of the second loop: \<^verbatim>\<open>if (labels[i] in table) labels[i] = table[labels[i]]\<close>.\<close>

definition renameLabel :: "string looked_up \<Rightarrow> string looked_up" where
  "renameLabel label =
     (case getProperty GitlabLabelsToLinearLabels (toPropertyKey label) of
        Some v \<Rightarrow> v
      | None \<Rightarrow> label)"

text \<open>
  \<^verbatim>\<open>mapLabels\<close> works on the array it is given and returns it; the model returns the final
  contents.  Its elements start as strings and stay strings unless the rename table yields an
  inherited member.
\<close>

definition mapLabels :: "string looked_up list \<Rightarrow> string looked_up list" where
  "mapLabels labels = map renameLabel (removeLoop removableLabels labels)"


section \<open>Assignee resolution\<close>

text \<open>
  The keys of \<^verbatim>\<open>users\<close> are numbers; their property keys are decimal numerals, none of which
  names a member of \<^verbatim>\<open>Object.prototype\<close>, so the directory is a map on the identifiers.
\<close>

definition users :: "int \<rightharpoonup> string" where
  "users = Map.empty
     (2 \<mapsto> ''floris@niice.nl'',
      20 \<mapsto> ''jorn@niice.nl'',
      49 \<mapsto> ''ken@niice.nl'',
      57 \<mapsto> ''mik@niice.nl'',
      84 \<mapsto> ''tim@niice.nl'')"

definition mapGitlabIdToEmail :: "int \<Rightarrow> string option" where
  "mapGitlabIdToEmail ident = users ident"



section \<open>Errors and the authenticated request executor\<close>

text \<open>
  Every failure of the client is a JavaScript \<^verbatim>\<open>Error\<close> told apart by its message; the two
  \<^verbatim>\<open>TypeError\<close>s are raised by the runtime (destructuring \<^verbatim>\<open>undefined\<close>, reading a property
  of \<^verbatim>\<open>null\<close>).  The \<^verbatim>\<open>catch\<close> handlers wrap the message of whatever they catch.
\<close>

datatype error =
    InvalidApiKey
  | NotFound
  | UnexpectedStatusCode int
  | ProjectNotFound string
  | CannotDestructureUndefined
  | CannotReadPropertyOfNull
  | FailedToGetProject error
  | FailedToGetIssues error

record 'a response =
  response_status :: int
  response_json :: 'a

text \<open>The checks \<^verbatim>\<open>gitlabClient\<close> makes on the response of \<^verbatim>\<open>fetch\<close>.\<close>

definition gitlabClient :: "'a response \<Rightarrow> error + 'a" where
  "gitlabClient response =
     (if response_status response = 401 then Inl InvalidApiKey
      else if response_status response = 404 then Inl NotFound
      else if response_status response \<noteq> 200
        then Inl (UnexpectedStatusCode (response_status response))
      else Inr (response_json response))"


section \<open>The data of the service\<close>

datatype js_date = NewDate string

record Assignee =
  assignee_state :: string
  assignee_id :: int
  assignee_name :: string
  assignee_web_url :: string
  assignee_avatar_url :: string
  assignee_username :: string

record Author =
  author_state :: string
  author_id :: int
  author_web_url :: string
  author_name :: string
  author_username :: string

text \<open>\<^verbatim>\<open>author\<close> is declared \<^verbatim>\<open>any\<close>; \<open>None\<close> stands for \<^verbatim>\<open>null\<close>.\<close>

record Note =
  note_id :: int
  note_system :: bool
  note_body :: string
  note_attachment :: string
  note_author :: "Author option"
  note_created_at :: string
  note_updated_at :: string

record Comment =
  comment_id :: int
  comment_body :: string
  comment_userId :: int
  comment_createdAt :: js_date

text \<open>\<^verbatim>\<open>due_date\<close> is \<^verbatim>\<open>null\<close> (\<open>None\<close>) or a string.\<close>

record GITLAB_ISSUE =
  issue_id :: int
  issue_iid :: int
  issue_title :: string
  issue_description :: string
  issue_labels :: "string list"
  issue_assignees :: "Assignee list"
  issue_due_date :: "string option"
  issue_severity :: string
  issue_web_url :: string
  issue_created_at :: string
  issue_state :: string
  issue_comments :: "Comment list"

record Project =
  project_path :: string
  project_id :: int

text \<open>
  The service as the client sees it: the response to each of the three requests, given the
  credential sent in the \<^verbatim>\<open>PRIVATE-TOKEN\<close> header and the parameters put into the path.
\<close>

record gitlab_service =
  projects_search :: "string \<Rightarrow> string \<Rightarrow> Project list response"
  issues_opened :: "string \<Rightarrow> int \<Rightarrow> GITLAB_ISSUE list response"
  issue_notes :: "string \<Rightarrow> int \<Rightarrow> int \<Rightarrow> Note list response"


section \<open>The project resolver\<close>

text \<open>
  \<^verbatim>\<open>const { id } = projects.find(...)\<close> destructures the result of \<^verbatim>\<open>find\<close> before \<^verbatim>\<open>id\<close> is
  tested: when no project matches, \<^verbatim>\<open>find\<close> yields \<^verbatim>\<open>undefined\<close> and the destructuring raises
  a \<^verbatim>\<open>TypeError\<close>.  \<^verbatim>\<open>!id\<close> holds for the number 0.
\<close>

definition selectProject :: "string \<Rightarrow> Project list \<Rightarrow> error + int" where
  "selectProject projectName projects =
     (case find (\<lambda>project. project_path project = projectName) projects of
        None \<Rightarrow> Inl CannotDestructureUndefined
      | Some project \<Rightarrow>
          if project_id project = 0 then Inl (ProjectNotFound projectName)
          else Inr (project_id project))"

definition getGitlabProjectId :: "gitlab_service \<Rightarrow> string \<Rightarrow> string \<Rightarrow> error + int" where
  "getGitlabProjectId service apiKey projectName =
     (case (case gitlabClient (projects_search service apiKey projectName) of
              Inl e \<Rightarrow> Inl e
            | Inr projects \<Rightarrow> selectProject projectName projects) of
        Inl e \<Rightarrow> Inl (FailedToGetProject e)
      | Inr ident \<Rightarrow> Inr ident)"


section \<open>The issue fetcher\<close>

text \<open>
  \<^verbatim>\<open>String.prototype.replace\<close> with a string pattern replaces the first occurrence only, and
  expands the replacement text first (\<^verbatim>\<open>GetSubstitution\<close>): \<^verbatim>\<open>$$\<close> is a dollar sign,
  \<^verbatim>\<open>$&\<close> the matched text, \<^verbatim>\<open>$`\<close> the text before the match and \<^verbatim>\<open>$'\<close> the text after it.
  A string pattern has no capture groups, so \<^verbatim>\<open>$1\<close> and \<^verbatim>\<open>$<name>\<close> stand for themselves, as
  does any other dollar sign.
\<close>

fun getSubstitution :: "string \<Rightarrow> string \<Rightarrow> string \<Rightarrow> string \<Rightarrow> string" where
  "getSubstitution matched pre post [] = []"
| "getSubstitution matched pre post [c] = [c]"
| "getSubstitution matched pre post (c # d # rest) =
     (if c = CHR 0x24 then
        (if d = CHR 0x24 then CHR 0x24 # getSubstitution matched pre post rest
         else if d = CHR 0x26 then matched @ getSubstitution matched pre post rest
         else if d = CHR 0x60 then pre @ getSubstitution matched pre post rest
         else if d = CHR 0x27 then post @ getSubstitution matched pre post rest
         else c # getSubstitution matched pre post (d # rest))
      else c # getSubstitution matched pre post (d # rest))"

definition replace :: "string \<Rightarrow> string \<Rightarrow> string \<Rightarrow> string" where
  "replace s pat replacement =
     (case splitAtFirst pat s of
        None \<Rightarrow> s
      | Some (pre, post) \<Rightarrow> pre @ getSubstitution pat pre post replacement @ post)"

text \<open>The callback given to \<^verbatim>\<open>map\<close>; \<^verbatim>\<open>note.author.id\<close> raises when the author is \<^verbatim>\<open>null\<close>.\<close>

definition noteToComment :: "string \<Rightarrow> Note \<Rightarrow> error + Comment" where
  "noteToComment projectName note =
     (let body = replace (note_body note) ''/uploads/''
                   (''https://git.niice.nl/niicedigitalmarketing/'' @ projectName @ ''/uploads/'')
      in case note_author note of
           None \<Rightarrow> Inl CannotReadPropertyOfNull
         | Some author \<Rightarrow>
             Inr \<lparr>comment_id = note_id note, comment_body = body,
                  comment_userId = author_id author,
                  comment_createdAt = NewDate (note_created_at note)\<rparr>)"

text \<open>\<^verbatim>\<open>Array.prototype.map\<close> with a callback that may raise: the first exception ends it.\<close>

fun mapNotes :: "string \<Rightarrow> Note list \<Rightarrow> error + Comment list" where
  "mapNotes projectName [] = Inr []"
| "mapNotes projectName (note # rest) =
     (case noteToComment projectName note of
        Inl e \<Rightarrow> Inl e
      | Inr c \<Rightarrow> (case mapNotes projectName rest of
                    Inl e \<Rightarrow> Inl e
                  | Inr cs \<Rightarrow> Inr (c # cs)))"

text \<open>
  The value assigned to \<^verbatim>\<open>issue.comments\<close>: the notes request, its \<^verbatim>\<open>then\<close> callback
  (\<^verbatim>\<open>filter\<close>, then \<^verbatim>\<open>map\<close>) and its \<^verbatim>\<open>catch\<close> handler.
\<close>

definition fetchComments ::
  "gitlab_service \<Rightarrow> string \<Rightarrow> int \<Rightarrow> string \<Rightarrow> GITLAB_ISSUE \<Rightarrow> error + Comment list" where
  "fetchComments service apiKey projectId projectName issue =
     (case (case gitlabClient (issue_notes service apiKey projectId (issue_iid issue)) of
              Inl e \<Rightarrow> Inl e
            | Inr notes \<Rightarrow> mapNotes projectName (filter (\<lambda>note. \<not> note_system note) notes)) of
        Inl e \<Rightarrow> Inl (FailedToGetIssues e)
      | Inr comments \<Rightarrow> Inr comments)"

text \<open>The loop \<^verbatim>\<open>for (const issue of issues)\<close>: one request after the other, the first failure ends it.\<close>

fun commentsLoop ::
  "gitlab_service \<Rightarrow> string \<Rightarrow> int \<Rightarrow> string \<Rightarrow> GITLAB_ISSUE list \<Rightarrow> error + GITLAB_ISSUE list" where
  "commentsLoop service apiKey projectId projectName [] = Inr []"
| "commentsLoop service apiKey projectId projectName (issue # rest) =
     (case fetchComments service apiKey projectId projectName issue of
        Inl e \<Rightarrow> Inl e
      | Inr comments \<Rightarrow>
          (case commentsLoop service apiKey projectId projectName rest of
             Inl e \<Rightarrow> Inl e
           | Inr rest' \<Rightarrow> Inr (issue\<lparr>issue_comments := comments\<rparr> # rest')))"

text \<open>
  The projection of the issue list copies eleven fields and no \<^verbatim>\<open>comments\<close>; the loop assigns
  \<^verbatim>\<open>comments\<close> to every issue before anything is returned.
\<close>

definition getGitlabIssuesFromRepo ::
  "gitlab_service \<Rightarrow> string \<Rightarrow> int \<Rightarrow> string \<Rightarrow> error + GITLAB_ISSUE list" where
  "getGitlabIssuesFromRepo service apiKey projectId projectName =
     (case gitlabClient (issues_opened service apiKey projectId) of
        Inl e \<Rightarrow> Inl (FailedToGetIssues e)
      | Inr issueList \<Rightarrow>
          commentsLoop service apiKey projectId projectName
            (map (\<lambda>issue. issue\<lparr>issue_comments := []\<rparr>) issueList))"


section \<open>The aggregator\<close>

record ImportedIssue =
  imported_title :: string
  imported_description :: string
  imported_url :: string
  imported_labels :: "string looked_up list"
  imported_createdAt :: js_date
  imported_dueDate :: "js_date option"
  imported_priority :: "int looked_up"
  imported_status :: "string looked_up"
  imported_comments :: "Comment list"
  imported_assigneeId :: "string option"

record ImportedUser =
  user_name :: string
  user_avatarUrl :: string

record ImportResult =
  result_issues :: "ImportedIssue list"
  result_labels :: "string \<rightharpoonup> string looked_up"
  result_users :: "int \<rightharpoonup> ImportedUser"

text \<open>The object pushed for one issue; every mapping function gets its own copy of the labels.\<close>

definition importedIssue :: "GITLAB_ISSUE \<Rightarrow> ImportedIssue" where
  "importedIssue issue =
     \<lparr>imported_title = issue_title issue,
      imported_description =
        issue_description issue @ [CHR 0x0A, CHR 0x0A] @ ''[View original issue in Gitlab]('' @
        issue_web_url issue @ '')'',
      imported_url = issue_web_url issue,
      imported_labels = mapLabels (map Own (issue_labels issue)),
      imported_createdAt = NewDate (issue_created_at issue),
      imported_dueDate =
        (case issue_due_date issue of
           None \<Rightarrow> None
         | Some d \<Rightarrow> if d = [] then None else Some (NewDate d)),
      imported_priority = mapPriority (issue_labels issue),
      imported_status = mapStatusFromLabels (issue_labels issue),
      imported_comments = issue_comments issue,
      imported_assigneeId =
        (case issue_assignees issue of
           [] \<Rightarrow> None
         | assignee # _ \<Rightarrow> mapGitlabIdToEmail (assignee_id assignee))\<rparr>"

fun assigneesLoop :: "Assignee list \<Rightarrow> ImportResult \<Rightarrow> ImportResult" where
  "assigneesLoop [] importData = importData"
| "assigneesLoop (assignee # rest) importData =
     assigneesLoop rest
       (importData\<lparr>result_users := (result_users importData)
          (assignee_id assignee \<mapsto>
             \<lparr>user_name = assignee_name assignee,
              user_avatarUrl = assignee_avatar_url assignee\<rparr>)\<rparr>)"

text \<open>
  \<^verbatim>\<open>importData.labels[label] = { name: label }\<close>, the record being its one field.  The key is
  never \<^verbatim>\<open>__proto__\<close> (\<open>mapLabels_key_not_proto\<close> below), the one key an assignment would not
  store.
\<close>

fun labelsLoop :: "string looked_up list \<Rightarrow> ImportResult \<Rightarrow> ImportResult" where
  "labelsLoop [] importData = importData"
| "labelsLoop (label # rest) importData =
     labelsLoop rest
       (importData\<lparr>result_labels := (result_labels importData)(toPropertyKey label \<mapsto> label)\<rparr>)"

fun issuesLoop :: "GITLAB_ISSUE list \<Rightarrow> ImportResult \<Rightarrow> ImportResult" where
  "issuesLoop [] importData = importData"
| "issuesLoop (issue # rest) importData =
     issuesLoop rest
       (labelsLoop (mapLabels (map Own (issue_labels issue)))
          (assigneesLoop (issue_assignees issue)
             (importData\<lparr>result_issues := result_issues importData @ [importedIssue issue]\<rparr>)))"

text \<open>\<^verbatim>\<open>GitLabImporter.import\<close>, for the importer built from a project name and an access token.\<close>

definition GitLabImporter_import :: "gitlab_service \<Rightarrow> string \<Rightarrow> string \<Rightarrow> error + ImportResult" where
  "GitLabImporter_import service projectName accessToken =
     (case getGitlabProjectId service accessToken projectName of
        Inl e \<Rightarrow> Inl e
      | Inr projectId \<Rightarrow>
          (case getGitlabIssuesFromRepo service accessToken projectId projectName of
             Inl e \<Rightarrow> Inl e
           | Inr issues \<Rightarrow>
               Inr (issuesLoop issues
                      \<lparr>result_issues = [], result_labels = Map.empty, result_users = Map.empty\<rparr>)))"


section \<open>A small service, for concrete runs\<close>

text \<open>
  One project \<^verbatim>\<open>foo\<close> beside a project \<^verbatim>\<open>bar-foo\<close> that the fuzzy search also returns, one
  open issue with an empty description, and four notes on it: a system note, a comment with one
  uploaded file, a comment with two, a comment with none.  The three arguments are the status
  codes with which the three endpoints answer.
\<close>

definition example_author :: Author where
  "example_author =
     \<lparr>author_state = ''active'', author_id = 20, author_web_url = ''https://git.niice.nl/jorn'',
      author_name = ''Jorn'', author_username = ''jorn''\<rparr>"

definition example_notes :: "Note list" where
  "example_notes =
     [\<lparr>note_id = 1, note_system = True, note_body = ''changed the description'',
       note_attachment = [], note_author = Some example_author,
       note_created_at = ''2021-03-01T10:00:00Z'', note_updated_at = ''2021-03-01T10:00:00Z''\<rparr>,
      \<lparr>note_id = 2, note_system = False, note_body = ''see ![a](/uploads/1/a.png)'',
       note_attachment = [], note_author = Some example_author,
       note_created_at = ''2021-03-01T11:00:00Z'', note_updated_at = ''2021-03-01T11:00:00Z''\<rparr>,
      \<lparr>note_id = 3, note_system = False,
       note_body = ''![a](/uploads/1/a.png) ![b](/uploads/2/b.png)'',
       note_attachment = [], note_author = Some example_author,
       note_created_at = ''2021-03-01T12:00:00Z'', note_updated_at = ''2021-03-01T12:00:00Z''\<rparr>,
      \<lparr>note_id = 4, note_system = False, note_body = ''done'',
       note_attachment = [], note_author = Some example_author,
       note_created_at = ''2021-03-01T13:00:00Z'', note_updated_at = ''2021-03-01T13:00:00Z''\<rparr>]"

definition example_issue :: GITLAB_ISSUE where
  "example_issue =
     \<lparr>issue_id = 101, issue_iid = 7, issue_title = ''Crash on save'', issue_description = [],
      issue_labels = [''Type::Bug'', ''Status::To-do'', ''Prio :: 2''], issue_assignees = [],
      issue_due_date = None, issue_severity = ''UNKNOWN'',
      issue_web_url = ''https://git.niice.nl/niicedigitalmarketing/foo/-/issues/7'',
      issue_created_at = ''2021-03-01T09:00:00Z'', issue_state = ''opened'',
      issue_comments = []\<rparr>"

definition example_service :: "int \<Rightarrow> int \<Rightarrow> int \<Rightarrow> gitlab_service" where
  "example_service searchStatus issuesStatus notesStatus =
     \<lparr>projects_search = (\<lambda>apiKey search.
        \<lparr>response_status = searchStatus,
         response_json = [\<lparr>project_path = ''bar-foo'', project_id = 4\<rparr>,
                          \<lparr>project_path = ''foo'', project_id = 5\<rparr>]\<rparr>),
      issues_opened = (\<lambda>apiKey projectId.
        \<lparr>response_status = issuesStatus, response_json = [example_issue]\<rparr>),
      issue_notes = (\<lambda>apiKey projectId iid.
        \<lparr>response_status = notesStatus, response_json = example_notes\<rparr>)\<rparr>"

text \<open>
  A service with two open issues whose notes endpoint answers for the first issue and
  rejects the credential for the second.
\<close>

definition example_service_two :: gitlab_service where
  "example_service_two =
     \<lparr>projects_search = (\<lambda>apiKey search.
        \<lparr>response_status = 200,
         response_json = [\<lparr>project_path = ''foo'', project_id = 5\<rparr>]\<rparr>),
      issues_opened = (\<lambda>apiKey projectId.
        \<lparr>response_status = 200,
         response_json = [example_issue, example_issue\<lparr>issue_id := 102, issue_iid := 8\<rparr>]\<rparr>),
      issue_notes = (\<lambda>apiKey projectId iid.
        \<lparr>response_status = (if iid = 8 then 401 else 200), response_json = example_notes\<rparr>)\<rparr>"

text \<open>The issue as the fetcher is found to return it (\<open>example_fetch\<close> below).\<close>

definition example_fetched :: GITLAB_ISSUE where
  "example_fetched =
     example_issue\<lparr>issue_comments :=
       [\<lparr>comment_id = 2,
         comment_body = ''see ![a](https://git.niice.nl/niicedigitalmarketing/foo/uploads/1/a.png)'',
         comment_userId = 20, comment_createdAt = NewDate ''2021-03-01T11:00:00Z''\<rparr>,
        \<lparr>comment_id = 3,
         comment_body = ''![a](https://git.niice.nl/niicedigitalmarketing/foo/uploads/1/a.png) ![b](/uploads/2/b.png)'',
         comment_userId = 20, comment_createdAt = NewDate ''2021-03-01T12:00:00Z''\<rparr>,
        \<lparr>comment_id = 4, comment_body = ''done'',
         comment_userId = 20, comment_createdAt = NewDate ''2021-03-01T13:00:00Z''\<rparr>]\<rparr>"


section \<open>Facts about substring search\<close>

text \<open>
  \<open>splitAtFirst\<close> finds an occurrence exactly when there is one (\<open>sublist\<close> is the contiguous
  sublist relation of the library), and the occurrence it finds is the leftmost.
\<close>

lemma startsWith_iff_prefix: "startsWith pat s \<longleftrightarrow> prefix pat s"
  by (induction pat s rule: startsWith.induct) auto

lemma splitAtFirst_None_iff: "splitAtFirst pat s = None \<longleftrightarrow> \<not> sublist pat s"
proof (induction s)
  case Nil
  then show ?case by simp
next
  case (Cons c cs)
  then show ?case
    by (auto simp: startsWith_iff_prefix sublist_Cons_right split: option.splits)
qed

lemma splitAtFirst_Some_decomp:
  "splitAtFirst pat s = Some (pre, post) \<Longrightarrow> s = pre @ pat @ post"
proof (induction s arbitrary: pre)
  case Nil
  then show ?case by (simp split: if_splits)
next
  case (Cons c cs)
  show ?case
  proof (cases "startsWith pat (c # cs)")
    case True
    then obtain r where r: "c # cs = pat @ r"
      by (auto simp: startsWith_iff_prefix prefix_def)
    from True Cons.prems have "pre = []" and "post = drop (length pat) (c # cs)"
      by simp_all
    with r show ?thesis by simp
  next
    case False
    with Cons.prems obtain pre' where "splitAtFirst pat cs = Some (pre', post)" "pre = c # pre'"
      by (auto split: option.splits)
    with Cons.IH show ?thesis by simp
  qed
qed

lemma splitAtFirst_Some_first:
  "splitAtFirst pat s = Some (pre, post) \<Longrightarrow> s = pre' @ pat @ post' \<Longrightarrow> length pre \<le> length pre'"
proof (induction s arbitrary: pre pre')
  case Nil
  then show ?case by (simp split: if_splits)
next
  case (Cons c cs)
  show ?case
  proof (cases "startsWith pat (c # cs)")
    case True
    with Cons.prems(1) have "pre = []" by simp
    then show ?thesis by simp
  next
    case False
    with Cons.prems(1) obtain p where p: "splitAtFirst pat cs = Some (p, post)" "pre = c # p"
      by (auto split: option.splits)
    from False Cons.prems(2) have "pre' \<noteq> []"
      by (auto simp: startsWith_iff_prefix)
    then obtain q where q: "pre' = c # q" "cs = q @ pat @ post'"
      using Cons.prems(2) by (cases pre') auto
    from Cons.IH[OF p(1) q(2)] p(2) q(1) show ?thesis by simp
  qed
qed

lemma includes_str_iff_sublist: "includes_str s pat \<longleftrightarrow> sublist pat s"
  using splitAtFirst_None_iff[of pat s] by (auto simp: includes_str_def split: option.splits)

lemma proto_keys_no_prio: "key \<in> set objectPrototypeKeys \<Longrightarrow> \<not> includes_str key ''Prio :: ''"
  by (auto simp: objectPrototypeKeys_def includes_str_def)


section \<open>The two status tables\<close>

text \<open>
  C4.  The status derivation of \<^verbatim>\<open>client.ts\<close> and that of the second copy of the module
  disagree: on the label list \<^verbatim>\<open>["Status::On hold"]\<close> the first gives \<^verbatim>\<open>Backlog\<close> and the
  second \<^verbatim>\<open>Todo\<close>; on \<^verbatim>\<open>["Status::Approved Internally"]\<close> the first gives \<^verbatim>\<open>Done\<close> and
  the second \<^verbatim>\<open>Review\<close>.
\<close>

theorem status_tables_diverge:
  "mapStatusFromLabels [''Status::On hold''] = Own ''Backlog'' \<and>
   mapStatusFromLabels_part_001 [''Status::On hold''] = Own ''Todo'' \<and>
   mapStatusFromLabels [''Status::Approved Internally''] = Own ''Done'' \<and>
   mapStatusFromLabels_part_001 [''Status::Approved Internally''] = Own ''Review'' \<and>
   (\<exists>labels. mapStatusFromLabels labels \<noteq> mapStatusFromLabels_part_001 labels)"
proof -
  have a: "mapStatusFromLabels [''Status::On hold''] = Own ''Backlog''"
    by (simp add: mapStatusFromLabels_def getProperty_def statuses_def)
  have b: "mapStatusFromLabels_part_001 [''Status::On hold''] = Own ''Todo''"
    by (simp add: mapStatusFromLabels_part_001_def getProperty_def statuses_part_001_def)
  have c: "mapStatusFromLabels [''Status::Approved Internally''] = Own ''Done''"
    by (simp add: mapStatusFromLabels_def getProperty_def statuses_def)
  have d: "mapStatusFromLabels_part_001 [''Status::Approved Internally''] = Own ''Review''"
    by (simp add: mapStatusFromLabels_part_001_def getProperty_def statuses_part_001_def)
  from a b have "mapStatusFromLabels [''Status::On hold''] \<noteq>
      mapStatusFromLabels_part_001 [''Status::On hold'']"
    by simp
  then have "\<exists>labels. mapStatusFromLabels labels \<noteq> mapStatusFromLabels_part_001 labels"
    by blast
  with a b c d show ?thesis by blast
qed


section \<open>Priority derivation: the first marker decides\<close>

lemma find_first_match:
  "\<forall>x\<in>set pre. \<not> P x \<Longrightarrow> P l \<Longrightarrow> find P (pre @ l # post) = Some l"
  by (induction pre) auto

lemma find_no_match: "\<forall>x\<in>set xs. \<not> P x \<Longrightarrow> find P xs = None"
  by (induction xs) auto

lemma getProperty_priorityMap_marker:
  "includes_str l ''Prio :: '' \<Longrightarrow>
   getProperty priorityMap l =
     (if l = ''Prio :: Web'' then Some (Own 0)
      else if l = ''Prio :: 1'' then Some (Own 2)
      else if l = ''Prio :: 2'' then Some (Own 3)
      else if l = ''Prio :: 3'' then Some (Own 4)
      else None)"
proof -
  assume "includes_str l ''Prio :: ''"
  then have "l \<notin> set objectPrototypeKeys"
    using proto_keys_no_prio[of l] by blast
  then show ?thesis
    by (simp add: getProperty_def priorityMap_def)
qed

lemma sublist_eval:
  "sublist pat (s::string) \<longleftrightarrow> (case splitAtFirst pat s of None \<Rightarrow> False | Some _ \<Rightarrow> True)"
  using includes_str_iff_sublist[of s pat] by (simp add: includes_str_def)

text \<open>
  C5.  Priority derivation looks for the first label containing \<^verbatim>\<open>"Prio :: "\<close>.  When no label
  contains it, the result is 0.  Otherwise the first such label decides: \<^verbatim>\<open>"Prio :: Web"\<close>
  gives 0, \<^verbatim>\<open>"Prio :: 1"\<close> gives 2, \<^verbatim>\<open>"Prio :: 2"\<close> gives 3, \<^verbatim>\<open>"Prio :: 3"\<close> gives 4, and any
  other label containing the substring gives 0, as if there were none.  The result is always a
  number: no member of \<^verbatim>\<open>Object.prototype\<close> has a name containing the substring.
\<close>

theorem mapPriority_first_marker:
  "((\<forall>x\<in>set labels. \<not> sublist ''Prio :: '' x) \<longrightarrow> mapPriority labels = Own 0) \<and>
   ((\<forall>x\<in>set pre. \<not> sublist ''Prio :: '' x) \<and> sublist ''Prio :: '' l \<longrightarrow>
      mapPriority (pre @ l # post) =
        Own (if l = ''Prio :: Web'' then 0
             else if l = ''Prio :: 1'' then 2
             else if l = ''Prio :: 2'' then 3
             else if l = ''Prio :: 3'' then 4
             else 0))"
proof (intro conjI impI)
  assume "\<forall>x\<in>set labels. \<not> sublist ''Prio :: '' x"
  then have "find (\<lambda>label. includes_str label ''Prio :: '') labels = None"
    by (intro find_no_match) (simp add: includes_str_iff_sublist)
  then show "mapPriority labels = Own 0"
    by (simp add: mapPriority_def getProperty_def priorityMap_def objectPrototypeKeys_def)
next
  assume a: "(\<forall>x\<in>set pre. \<not> sublist ''Prio :: '' x) \<and> sublist ''Prio :: '' l"
  then have inc: "includes_str l ''Prio :: ''"
    by (simp add: includes_str_iff_sublist)
  from a have "find (\<lambda>label. includes_str label ''Prio :: '') (pre @ l # post) = Some l"
    by (intro find_first_match) (simp_all add: includes_str_iff_sublist)
  then show "mapPriority (pre @ l # post) =
        Own (if l = ''Prio :: Web'' then 0
             else if l = ''Prio :: 1'' then 2
             else if l = ''Prio :: 2'' then 3
             else if l = ''Prio :: 3'' then 4
             else 0)"
    by (simp add: mapPriority_def getProperty_priorityMap_marker[OF inc])
qed

theorem mapPriority_first_marker_witness:
  "mapPriority [''Type::Bug'', ''Frontend''] = Own 0 \<and>
   mapPriority [''Type::Bug'', ''Prio :: 2'', ''Prio :: 1''] = Own 3 \<and>
   mapPriority [''Prio :: Web''] = Own 0 \<and>
   mapPriority [''Prio :: 1'', ''Prio :: 3''] = Own 2 \<and>
   mapPriority [''Prio :: 3''] = Own 4 \<and>
   mapPriority [''Prio :: 9'', ''Prio :: 1''] = Own 0"
  using mapPriority_first_marker[of "[''Type::Bug'', ''Frontend'']" "[''Type::Bug'']" "''Prio :: 2''" "[''Prio :: 1'']"]
    mapPriority_first_marker[of "[]" "[]" "''Prio :: Web''" "[]"]
    mapPriority_first_marker[of "[]" "[]" "''Prio :: 1''" "[''Prio :: 3'']"]
    mapPriority_first_marker[of "[]" "[]" "''Prio :: 3''" "[]"]
    mapPriority_first_marker[of "[]" "[]" "''Prio :: 9''" "[''Prio :: 1'']"]
  by (simp add: sublist_eval)


section \<open>Status derivation: the last hit decides\<close>

lemma forEachLabel_append:
  "forEachLabel table (xs @ ys) s = forEachLabel table ys (forEachLabel table xs s)"
  by (induction xs arbitrary: s) auto

lemma forEachLabel_no_hit:
  "\<forall>x\<in>set xs. getProperty table x = None \<Longrightarrow> forEachLabel table xs s = s"
  by (induction xs arbitrary: s) auto

text \<open>
  The scan keeps the value of the last label that the table answers for; when the labels
  after a status marker are neither keys of the table nor names of members of
  \<^verbatim>\<open>Object.prototype\<close>, that is the status of the last marker.
\<close>

lemma forEachLabel_last_hit:
  "getProperty table l = Some v \<Longrightarrow> \<forall>x\<in>set post. getProperty table x = None \<Longrightarrow>
   forEachLabel table (pre @ l # post) s = v"
  by (simp add: forEachLabel_append forEachLabel_no_hit)

lemma mapStatusFromLabels_last_marker:
  "statuses l = Some v \<Longrightarrow>
   \<forall>x\<in>set post. statuses x = None \<and> x \<notin> set objectPrototypeKeys \<Longrightarrow>
   mapStatusFromLabels (pre @ l # post) = Own v"
  unfolding mapStatusFromLabels_def
  by (rule forEachLabel_last_hit) (simp_all add: getProperty_def)

lemma mapStatusFromLabels_default:
  "\<forall>x\<in>set labels. statuses x = None \<and> x \<notin> set objectPrototypeKeys \<Longrightarrow>
   mapStatusFromLabels labels = Own ''backlog''"
  unfolding mapStatusFromLabels_def
  by (rule forEachLabel_no_hit) (simp add: getProperty_def)

lemma statuses_values:
  "statuses l = Some v \<Longrightarrow>
   v \<in> {''Backlog'', ''Estimate'', ''Review'', ''In Progress'', ''Done'', ''Todo''}"
  by (simp add: statuses_def split: if_splits)

text \<open>
  C1.  With several status markers in the list, the status of the last one should be returned.
  The list \<^verbatim>\<open>["Status::Review", "Status::To-do", "constructor"]\<close> has the two markers
  \<^verbatim>\<open>Status::Review\<close> and \<^verbatim>\<open>Status::To-do\<close>, the last of which maps to \<^verbatim>\<open>Todo\<close>; its third label is
  no key of the table, yet \<^verbatim>\<open>"constructor" in statuses\<close> holds through the prototype, and the
  function returns the inherited member \<^verbatim>\<open>Object.prototype.constructor\<close> instead of \<^verbatim>\<open>Todo\<close>.
\<close>

theorem mapStatusFromLabels_inherited_after_markers:
  "statuses ''Status::To-do'' = Some ''Todo'' \<and> statuses ''constructor'' = None \<and>
   mapStatusFromLabels [''Status::Review'', ''Status::To-do'', ''constructor''] =
     Inherited ''constructor''"
  by (simp add: mapStatusFromLabels_def getProperty_def statuses_def objectPrototypeKeys_def)

text \<open>
  C10.  A list without any key of the status table should give the lower-case default
  \<^verbatim>\<open>backlog\<close> (which is none of the capitalised statuses of the table, see
  \<open>statuses_values\<close>).  The list \<^verbatim>\<open>["toString"]\<close> holds no key of the table, and the function
  returns the inherited member \<^verbatim>\<open>Object.prototype.toString\<close>, not \<^verbatim>\<open>backlog\<close>.
\<close>

theorem mapStatusFromLabels_inherited_without_marker:
  "statuses ''toString'' = None \<and>
   mapStatusFromLabels [''toString''] = Inherited ''toString'' \<and>
   mapStatusFromLabels [''toString''] \<noteq> Own ''backlog''"
  by (simp add: mapStatusFromLabels_def getProperty_def statuses_def objectPrototypeKeys_def)


section \<open>Label normalization: applying it twice\<close>

lemma splice1_Suc: "splice1 (Suc i) (y # ys) = y # splice1 i ys"
  by (simp add: splice1_def)

text \<open>The \<^verbatim>\<open>indexOf\<close>/\<^verbatim>\<open>splice\<close> step removes the first occurrence, as \<open>remove1\<close> does.\<close>

lemma indexOf_splice1_remove1:
  "(case indexOf xs x of Some index \<Rightarrow> splice1 index xs | None \<Rightarrow> xs) = remove1 x xs"
proof (induction xs)
  case Nil
  then show ?case by simp
next
  case (Cons y ys)
  show ?case
  proof (cases "y = x")
    case True
    then show ?thesis by (simp add: splice1_def)
  next
    case False
    with Cons.IH show ?thesis
      by (cases "indexOf ys x") (auto simp: splice1_Suc)
  qed
qed

lemma removeLoop_Cons: "removeLoop (r # rs) labels = removeLoop rs (remove1 (Own r) labels)"
  by (simp add: indexOf_splice1_remove1)

lemma set_removeLoop_subset: "set (removeLoop rs labels) \<subseteq> set labels"
proof (induction rs arbitrary: labels)
  case Nil
  then show ?case by simp
next
  case (Cons r rs)
  have "set (removeLoop rs (remove1 (Own r) labels)) \<subseteq> set (remove1 (Own r) labels)"
    by (rule Cons.IH)
  also have "\<dots> \<subseteq> set labels"
    by (rule set_remove1_subset)
  finally show ?case by (simp only: removeLoop_Cons)
qed

lemma count_list_remove1:
  "count_list (remove1 a xs) b = (if a = b then count_list xs b - 1 else count_list xs b)"
  by (induction xs) auto

lemma count_le_1_remove1_absent: "count_list xs a \<le> 1 \<Longrightarrow> a \<notin> set (remove1 a xs)"
proof -
  assume "count_list xs a \<le> 1"
  then have "count_list (remove1 a xs) a = 0"
    by (simp add: count_list_remove1)
  then show ?thesis
    using count_list_0_iff[of "remove1 a xs" a] by blast
qed

lemma removeLoop_removes_all:
  "\<forall>r\<in>set rs. count_list labels (Own r) \<le> 1 \<Longrightarrow>
   \<forall>r\<in>set rs. Own r \<notin> set (removeLoop rs labels)"
proof (induction rs arbitrary: labels)
  case Nil
  then show ?case by simp
next
  case (Cons r rs)
  let ?ls = "remove1 (Own r) labels"
  from Cons.prems have "\<forall>q\<in>set rs. count_list ?ls (Own q) \<le> 1"
    by (auto simp: count_list_remove1)
  then have rest: "\<forall>q\<in>set rs. Own q \<notin> set (removeLoop rs ?ls)"
    by (rule Cons.IH)
  from Cons.prems have "Own r \<notin> set ?ls"
    by (simp add: count_le_1_remove1_absent)
  with set_removeLoop_subset[of rs ?ls] have "Own r \<notin> set (removeLoop rs ?ls)"
    by blast
  with rest show ?case
    by (simp only: removeLoop_Cons) simp
qed

lemma removeLoop_nothing_to_remove:
  "\<forall>r\<in>set rs. Own r \<notin> set labels \<Longrightarrow> removeLoop rs labels = labels"
proof (induction rs arbitrary: labels)
  case Nil
  then show ?case by simp
next
  case (Cons r rs)
  then show ?case
    by (simp only: removeLoop_Cons) (simp add: remove1_idem)
qed

text \<open>
  Whatever the rename table (or the prototype behind it) yields is renamed no further and is no
  removable label.
\<close>

lemma rename_table_values:
  "GitlabLabelsToLinearLabels k = Some v \<Longrightarrow>
   v \<in> {''Bug'', ''Epic'', ''Feature'', ''Optimization'', ''Refinement'', ''Front-end'', ''Back-end''}"
  by (simp add: GitlabLabelsToLinearLabels_def split: if_splits)



lemma rename_values_fixed:
  assumes "v \<in> {''Bug'', ''Epic'', ''Feature'', ''Optimization'', ''Refinement'', ''Front-end'', ''Back-end''}"
  shows "getProperty GitlabLabelsToLinearLabels v = None"
proof -
  have "getProperty GitlabLabelsToLinearLabels ''Bug'' = None"
    by (simp add: getProperty_def GitlabLabelsToLinearLabels_def objectPrototypeKeys_def)
  moreover have "getProperty GitlabLabelsToLinearLabels ''Epic'' = None"
    by (simp add: getProperty_def GitlabLabelsToLinearLabels_def objectPrototypeKeys_def)
  moreover have "getProperty GitlabLabelsToLinearLabels ''Feature'' = None"
    by (simp add: getProperty_def GitlabLabelsToLinearLabels_def objectPrototypeKeys_def)
  moreover have "getProperty GitlabLabelsToLinearLabels ''Optimization'' = None"
    by (simp add: getProperty_def GitlabLabelsToLinearLabels_def objectPrototypeKeys_def)
  moreover have "getProperty GitlabLabelsToLinearLabels ''Refinement'' = None"
    by (simp add: getProperty_def GitlabLabelsToLinearLabels_def objectPrototypeKeys_def)
  moreover have "getProperty GitlabLabelsToLinearLabels ''Front-end'' = None"
    by (simp add: getProperty_def GitlabLabelsToLinearLabels_def objectPrototypeKeys_def)
  moreover have "getProperty GitlabLabelsToLinearLabels ''Back-end'' = None"
    by (simp add: getProperty_def GitlabLabelsToLinearLabels_def objectPrototypeKeys_def)
  ultimately show ?thesis
    using assms by blast
qed


lemma rename_values_not_removable:
  assumes "v \<in> {''Bug'', ''Epic'', ''Feature'', ''Optimization'', ''Refinement'', ''Front-end'', ''Back-end''}"
  shows "v \<notin> set removableLabels"
proof -
  have "''Bug'' \<notin> set removableLabels" by (simp add: removableLabels_def)
  moreover have "''Epic'' \<notin> set removableLabels" by (simp add: removableLabels_def)
  moreover have "''Feature'' \<notin> set removableLabels" by (simp add: removableLabels_def)
  moreover have "''Optimization'' \<notin> set removableLabels" by (simp add: removableLabels_def)
  moreover have "''Refinement'' \<notin> set removableLabels" by (simp add: removableLabels_def)
  moreover have "''Front-end'' \<notin> set removableLabels" by (simp add: removableLabels_def)
  moreover have "''Back-end'' \<notin> set removableLabels" by (simp add: removableLabels_def)
  ultimately show ?thesis
    using assms by blast
qed

lemma getProperty_Inherited_key:
  "getProperty GitlabLabelsToLinearLabels (toPropertyKey (Inherited n)) = None"
  by (simp add: getProperty_def GitlabLabelsToLinearLabels_def objectPrototypeKeys_def)

lemma getProperty_rename_result:
  assumes "getProperty GitlabLabelsToLinearLabels key = Some v"
  shows "getProperty GitlabLabelsToLinearLabels (toPropertyKey v) = None"
proof (cases "GitlabLabelsToLinearLabels key")
  case None
  with assms have "v = Inherited key"
    by (simp add: getProperty_def split: if_splits)
  then show ?thesis
    by (simp only: getProperty_Inherited_key)
next
  case (Some out)
  with assms have "v = Own out" by (simp add: getProperty_def)
  moreover from Some have "getProperty GitlabLabelsToLinearLabels out = None"
    by (intro rename_values_fixed rename_table_values)
  ultimately show ?thesis by simp
qed

lemma renameLabel_idem: "renameLabel (renameLabel label) = renameLabel label"
proof (cases "getProperty GitlabLabelsToLinearLabels (toPropertyKey label)")
  case None
  then show ?thesis by (simp add: renameLabel_def)
next
  case (Some v)
  then have "renameLabel label = v" by (simp add: renameLabel_def)
  moreover from Some have "renameLabel v = v"
    by (simp add: renameLabel_def getProperty_rename_result)
  ultimately show ?thesis by simp
qed

lemma renameLabel_removable:
  assumes "r \<in> set removableLabels" and "renameLabel label = Own r"
  shows "label = Own r"
proof (cases "getProperty GitlabLabelsToLinearLabels (toPropertyKey label)")
  case None
  with assms(2) show ?thesis by (simp add: renameLabel_def)
next
  case (Some v)
  with assms(2) have v: "v = Own r" by (simp add: renameLabel_def)
  with Some have "GitlabLabelsToLinearLabels (toPropertyKey label) = Some r"
    by (simp add: getProperty_def split: option.splits if_splits)
  then have "r \<notin> set removableLabels"
    by (intro rename_values_not_removable rename_table_values)
  with assms(1) show ?thesis by simp
qed

text \<open>
  The scenario of the specification: \<^verbatim>\<open>["Type::Bug", "Status::To-do", "Prio :: 2"]\<close> becomes
  \<^verbatim>\<open>["Bug"]\<close>.
\<close>

lemma mapLabels_scenario:
  "mapLabels [Own ''Type::Bug'', Own ''Status::To-do'', Own ''Prio :: 2''] = [Own ''Bug'']"
  by code_simp

text \<open>
  The second and third mapping of the same scenario: status \<^verbatim>\<open>Todo\<close> and the rank of
  \<^verbatim>\<open>"Prio :: 2"\<close>.
\<close>

lemma mapping_scenario:
  "mapStatusFromLabels [''Type::Bug'', ''Status::To-do'', ''Prio :: 2''] = Own ''Todo'' \<and>
   mapPriority [''Type::Bug'', ''Status::To-do'', ''Prio :: 2''] = Own 3"
  by code_simp

text \<open>
  No normalized label has the property key \<^verbatim>\<open>__proto__\<close>, so every assignment
  \<^verbatim>\<open>importData.labels[label] = ...\<close> of the aggregator creates or overwrites an own property.
\<close>

lemma renamed_label_key:
  "getProperty GitlabLabelsToLinearLabels (toPropertyKey (renameLabel label)) = None"
proof (cases "getProperty GitlabLabelsToLinearLabels (toPropertyKey label)")
  case None
  then show ?thesis by (simp add: renameLabel_def)
next
  case (Some v)
  then show ?thesis by (simp add: renameLabel_def getProperty_rename_result)
qed

lemma mapLabels_key_not_proto:
  assumes "label \<in> set (mapLabels labels)"
  shows "toPropertyKey label \<noteq> ''__proto__''"
proof
  assume key: "toPropertyKey label = ''__proto__''"
  from assms obtain l where "label = renameLabel l"
    by (auto simp: mapLabels_def)
  then have "getProperty GitlabLabelsToLinearLabels (toPropertyKey label) = None"
    by (simp add: renamed_label_key)
  with key show False
    by (simp add: getProperty_def GitlabLabelsToLinearLabels_def objectPrototypeKeys_def)
qed

text \<open>
  C2, as stated (normalization is idempotent on every label list), fails: each removable
  label is looked up once and only its first occurrence is spliced out, so of two
  \<^verbatim>\<open>"Prio :: 1"\<close> labels one survives the first application and is removed by the second.
\<close>

theorem mapLabels_not_idempotent:
  "mapLabels (mapLabels [Own ''Prio :: 1'', Own ''Prio :: 1'']) \<noteq>
   mapLabels [Own ''Prio :: 1'', Own ''Prio :: 1'']"
  by code_simp

text \<open>
  C2, amended.  On every label list in which each removable label occurs at most once,
  applying \<^verbatim>\<open>mapLabels\<close> to the result of \<^verbatim>\<open>mapLabels\<close> gives the same list as applying it once.
  The list may hold the inherited members a previous application produced.
\<close>

theorem mapLabels_idempotent:
  assumes "\<forall>r\<in>set removableLabels. count_list labels (Own r) \<le> 1"
  shows "mapLabels (mapLabels labels) = mapLabels labels"
proof -
  let ?kept = "removeLoop removableLabels labels"
  from assms have "\<forall>r\<in>set removableLabels. Own r \<notin> set ?kept"
    by (rule removeLoop_removes_all)
  then have "\<forall>r\<in>set removableLabels. Own r \<notin> set (map renameLabel ?kept)"
    using renameLabel_removable by fastforce
  then have "removeLoop removableLabels (map renameLabel ?kept) = map renameLabel ?kept"
    by (rule removeLoop_nothing_to_remove)
  then show ?thesis
    by (simp add: mapLabels_def renameLabel_idem)
qed


theorem mapLabels_idempotent_witness:
  "mapLabels (mapLabels [Own ''Type::Bug'', Own ''Status::To-do'', Own ''Prio :: 2'', Own ''toString'']) =
   mapLabels [Own ''Type::Bug'', Own ''Status::To-do'', Own ''Prio :: 2'', Own ''toString'']"
  using mapLabels_idempotent[of "[Own ''Type::Bug'', Own ''Status::To-do'', Own ''Prio :: 2'', Own ''toString'']"]
  by (simp add: removableLabels_def)


section \<open>Failures of the requests\<close>

lemma fetchComments_error_wrapped:
  "fetchComments service apiKey projectId projectName issue = Inl e \<Longrightarrow> \<exists>cause. e = FailedToGetIssues cause"
  by (auto simp: fetchComments_def split: sum.splits)

lemma fetchComments_401:
  "response_status (issue_notes service apiKey projectId (issue_iid issue)) = 401 \<Longrightarrow>
   fetchComments service apiKey projectId projectName issue = Inl (FailedToGetIssues InvalidApiKey)"
  by (simp add: fetchComments_def gitlabClient_def)

lemma fetchComments_projection:
  "fetchComments service apiKey projectId projectName (issue\<lparr>issue_comments := cs\<rparr>) =
   fetchComments service apiKey projectId projectName issue"
  by (simp add: fetchComments_def)

lemma commentsLoop_first_failure:
  "\<forall>i\<in>set pre. \<exists>cs. fetchComments service apiKey projectId projectName i = Inr cs \<Longrightarrow>
   fetchComments service apiKey projectId projectName issue = Inl e \<Longrightarrow>
   commentsLoop service apiKey projectId projectName (pre @ issue # post) = Inl e"
  by (induction pre) auto

lemma commentsLoop_some_failure:
  "issue \<in> set issues \<Longrightarrow>
   fetchComments service apiKey projectId projectName issue = Inl e \<Longrightarrow>
   \<exists>cause. commentsLoop service apiKey projectId projectName issues = Inl (FailedToGetIssues cause)"
proof (induction issues)
  case Nil
  then show ?case by simp
next
  case (Cons i rest)
  show ?case
  proof (cases "fetchComments service apiKey projectId projectName i")
    case (Inl e')
    then show ?thesis
      using fetchComments_error_wrapped[OF Inl] by auto
  next
    case (Inr cs)
    with Cons.prems have "issue \<in> set rest" by auto
    from Cons.IH[OF this Cons.prems(2)] Inr show ?thesis by auto
  qed
qed

lemma commentsLoop_result:
  "commentsLoop service apiKey projectId projectName issues = Inr fetched \<Longrightarrow>
   list_all2 (\<lambda>issue f. \<exists>cs. fetchComments service apiKey projectId projectName issue = Inr cs \<and>
                            f = issue\<lparr>issue_comments := cs\<rparr>) issues fetched"
proof (induction issues arbitrary: fetched)
  case Nil
  then show ?case by simp
next
  case (Cons i rest)
  then show ?case
    by (auto split: sum.splits)
qed


lemma import_fails_with_issues:
  assumes "getGitlabProjectId service token name = Inr pid"
    and "getGitlabIssuesFromRepo service token pid name = Inl e"
  shows "GitLabImporter_import service name token = Inl e"
  using assms by (simp add: GitLabImporter_import_def)

text \<open>On the service with two issues the notes of the first issue are fetched.\<close>

lemma example_two_first_issue:
  "fetchComments example_service_two ''k'' 5 ''foo'' example_issue =
     Inr (issue_comments example_fetched)"
  unfolding example_fetched_def by code_simp

text \<open>
  C7.  The request executor decides by the status code alone: 401 raises the error
  \<^verbatim>\<open>Invalid API key\<close>, 404 raises \<^verbatim>\<open>Not found\<close>, every other code but 200 raises the
  unexpected-status error holding that code, and 200 returns the decoded body; nothing but a
  200 returns a body.  A 401 aborts the import with an error and no result: from the project
  search, from the issue list, and from the notes of any issue (the error is the wrapped
  \<^verbatim>\<open>Invalid API key\<close> when no earlier notes request has already failed).
\<close>

theorem request_classification:
  "(response_status r = 401 \<longrightarrow> gitlabClient r = Inl InvalidApiKey) \<and>
   (response_status r = 404 \<longrightarrow> gitlabClient r = Inl NotFound) \<and>
   (response_status r \<notin> {200, 401, 404} \<longrightarrow>
      gitlabClient r = Inl (UnexpectedStatusCode (response_status r))) \<and>
   (response_status r = 200 \<longrightarrow> gitlabClient r = Inr (response_json r)) \<and>
   (\<forall>j. gitlabClient r = Inr j \<longrightarrow> response_status r = 200) \<and>
   (response_status (projects_search service token name) = 401 \<longrightarrow>
      GitLabImporter_import service name token = Inl (FailedToGetProject InvalidApiKey)) \<and>
   (getGitlabProjectId service token name = Inr pid \<and>
    response_status (issues_opened service token pid) = 401 \<longrightarrow>
      GitLabImporter_import service name token = Inl (FailedToGetIssues InvalidApiKey)) \<and>
   (getGitlabProjectId service token name = Inr pid \<and>
    gitlabClient (issues_opened service token pid) = Inr issues \<and>
    issue \<in> set issues \<and>
    response_status (issue_notes service token pid (issue_iid issue)) = 401 \<longrightarrow>
      (\<exists>cause. GitLabImporter_import service name token = Inl (FailedToGetIssues cause))) \<and>
   (getGitlabProjectId service token name = Inr pid \<and>
    gitlabClient (issues_opened service token pid) = Inr (pre @ issue # post) \<and>
    (\<forall>i\<in>set pre. \<exists>cs. fetchComments service token pid name i = Inr cs) \<and>
    response_status (issue_notes service token pid (issue_iid issue)) = 401 \<longrightarrow>
      GitLabImporter_import service name token = Inl (FailedToGetIssues InvalidApiKey))"
proof (intro conjI impI allI)
  fix j
  assume "gitlabClient r = Inr j"
  then show "response_status r = 200"
    by (simp add: gitlabClient_def split: if_splits)
next
  assume "response_status (projects_search service token name) = 401"
  then show "GitLabImporter_import service name token = Inl (FailedToGetProject InvalidApiKey)"
    by (simp add: GitLabImporter_import_def getGitlabProjectId_def gitlabClient_def)
next
  assume "getGitlabProjectId service token name = Inr pid \<and>
    response_status (issues_opened service token pid) = 401"
  then show "GitLabImporter_import service name token = Inl (FailedToGetIssues InvalidApiKey)"
    by (simp add: GitLabImporter_import_def getGitlabIssuesFromRepo_def gitlabClient_def)
next
  assume a: "getGitlabProjectId service token name = Inr pid \<and>
    gitlabClient (issues_opened service token pid) = Inr issues \<and>
    issue \<in> set issues \<and>
    response_status (issue_notes service token pid (issue_iid issue)) = 401"
  let ?p = "issue\<lparr>issue_comments := []\<rparr>"
  from a have "?p \<in> set (map (\<lambda>issue. issue\<lparr>issue_comments := []\<rparr>) issues)"
    by simp
  moreover from a have "fetchComments service token pid name ?p = Inl (FailedToGetIssues InvalidApiKey)"
    by (simp add: fetchComments_401)
  ultimately obtain cause where
    "commentsLoop service token pid name (map (\<lambda>issue. issue\<lparr>issue_comments := []\<rparr>) issues) =
       Inl (FailedToGetIssues cause)"
    using commentsLoop_some_failure by blast
  with a have "getGitlabIssuesFromRepo service token pid name = Inl (FailedToGetIssues cause)"
    by (simp add: getGitlabIssuesFromRepo_def)
  with a show "\<exists>cause. GitLabImporter_import service name token = Inl (FailedToGetIssues cause)"
    using import_fails_with_issues by blast
next
  assume a: "getGitlabProjectId service token name = Inr pid \<and>
    gitlabClient (issues_opened service token pid) = Inr (pre @ issue # post) \<and>
    (\<forall>i\<in>set pre. \<exists>cs. fetchComments service token pid name i = Inr cs) \<and>
    response_status (issue_notes service token pid (issue_iid issue)) = 401"
  let ?proj = "\<lambda>issue. issue\<lparr>issue_comments := []\<rparr>"
  from a have "\<forall>i\<in>set (map ?proj pre). \<exists>cs. fetchComments service token pid name i = Inr cs"
    by (simp add: fetchComments_projection)
  moreover from a have "fetchComments service token pid name (?proj issue) =
      Inl (FailedToGetIssues InvalidApiKey)"
    by (simp add: fetchComments_401)
  ultimately have "commentsLoop service token pid name (map ?proj pre @ ?proj issue # map ?proj post) =
      Inl (FailedToGetIssues InvalidApiKey)"
    by (rule commentsLoop_first_failure)
  with a have "getGitlabIssuesFromRepo service token pid name = Inl (FailedToGetIssues InvalidApiKey)"
    by (simp add: getGitlabIssuesFromRepo_def)
  with a show "GitLabImporter_import service name token = Inl (FailedToGetIssues InvalidApiKey)"
    using import_fails_with_issues by blast
qed (simp_all add: gitlabClient_def)


theorem request_classification_witness:
  "gitlabClient \<lparr>response_status = 401, response_json = ()\<rparr> = Inl InvalidApiKey \<and>
   gitlabClient \<lparr>response_status = 404, response_json = ()\<rparr> = Inl NotFound \<and>
   gitlabClient \<lparr>response_status = 503, response_json = ()\<rparr> = Inl (UnexpectedStatusCode 503) \<and>
   gitlabClient \<lparr>response_status = 200, response_json = ()\<rparr> = Inr () \<and>
   GitLabImporter_import (example_service 401 200 200) ''foo'' ''k'' =
     Inl (FailedToGetProject InvalidApiKey) \<and>
   GitLabImporter_import (example_service 200 401 200) ''foo'' ''k'' =
     Inl (FailedToGetIssues InvalidApiKey) \<and>
   GitLabImporter_import (example_service 200 200 401) ''foo'' ''k'' =
     Inl (FailedToGetIssues InvalidApiKey) \<and>
   GitLabImporter_import example_service_two ''foo'' ''k'' =
     Inl (FailedToGetIssues InvalidApiKey)"
proof -
  let ?r = "\<lambda>code. \<lparr>response_status = code, response_json = ()\<rparr>"
  have r401: "gitlabClient (?r 401) = Inl InvalidApiKey"
    using request_classification[of "?r 401"] by simp
  have r404: "gitlabClient (?r 404) = Inl NotFound"
    using request_classification[of "?r 404"] by simp
  have r503: "gitlabClient (?r 503) = Inl (UnexpectedStatusCode 503)"
    using request_classification[of "?r 503"] by simp
  have r200: "gitlabClient (?r 200) = Inr ()"
    using request_classification[of "?r 200"] by simp
  have search: "response_status (projects_search (example_service 401 200 200) ''k'' ''foo'') = 401"
    by (simp add: example_service_def)
  have i1: "GitLabImporter_import (example_service 401 200 200) ''foo'' ''k'' =
      Inl (FailedToGetProject InvalidApiKey)"
    using request_classification[of "?r 401" "example_service 401 200 200" "''k''" "''foo''"] search
    by blast
  have pid2: "getGitlabProjectId (example_service 200 401 200) ''k'' ''foo'' = Inr 5"
    by code_simp
  have issues2: "response_status (issues_opened (example_service 200 401 200) ''k'' 5) = 401"
    by (simp add: example_service_def)
  have i2: "GitLabImporter_import (example_service 200 401 200) ''foo'' ''k'' =
      Inl (FailedToGetIssues InvalidApiKey)"
    using request_classification[of "?r 401" "example_service 200 401 200" "''k''" "''foo''" 5]
      pid2 issues2
    by blast
  have pid3: "getGitlabProjectId (example_service 200 200 401) ''k'' ''foo'' = Inr 5"
    by code_simp
  have issues3: "gitlabClient (issues_opened (example_service 200 200 401) ''k'' 5) =
      Inr ([] @ example_issue # [])"
    by (simp add: example_service_def gitlabClient_def)
  have notes3: "response_status (issue_notes (example_service 200 200 401) ''k'' 5
      (issue_iid example_issue)) = 401"
    by (simp add: example_service_def)
  have i3: "GitLabImporter_import (example_service 200 200 401) ''foo'' ''k'' =
      Inl (FailedToGetIssues InvalidApiKey)"
    using request_classification[of "?r 401" "example_service 200 200 401" "''k''" "''foo''" 5
        "[example_issue]" example_issue "[]" "[]"]
      pid3 issues3 notes3
    by simp
  let ?second = "example_issue\<lparr>issue_id := 102, issue_iid := 8\<rparr>"
  have pid4: "getGitlabProjectId example_service_two ''k'' ''foo'' = Inr 5"
    by code_simp
  have issues4: "gitlabClient (issues_opened example_service_two ''k'' 5) =
      Inr ([example_issue] @ ?second # [])"
    by (simp add: example_service_two_def gitlabClient_def)
  have first4: "\<forall>i\<in>set [example_issue].
      \<exists>cs. fetchComments example_service_two ''k'' 5 ''foo'' i = Inr cs"
    using example_two_first_issue by simp
  have notes4: "response_status (issue_notes example_service_two ''k'' 5 (issue_iid ?second)) = 401"
    by (simp add: example_service_two_def)
  have i4: "GitLabImporter_import example_service_two ''foo'' ''k'' =
      Inl (FailedToGetIssues InvalidApiKey)"
    using request_classification[of "?r 401" example_service_two "''k''" "''foo''" 5
        "[example_issue, ?second]" ?second "[example_issue]" "[]"]
      pid4 issues4 first4 notes4
    by blast
  from r401 r404 r503 r200 i1 i2 i3 i4 show ?thesis by blast
qed


section \<open>Comments come from the notes that are not system notes\<close>

lemma mapNotes_result:
  "mapNotes projectName notes = Inr comments \<Longrightarrow>
   map Inr comments = map (noteToComment projectName) notes"
proof (induction "notes" arbitrary: comments)
  case Nil
  then show ?case by simp
next
  case (Cons n rest)
  then show ?case by (auto split: sum.splits)
qed

lemma fetchComments_result:
  assumes "fetchComments service apiKey projectId projectName issue = Inr comments"
  shows "\<exists>notes. gitlabClient (issue_notes service apiKey projectId (issue_iid issue)) = Inr notes \<and>
           map Inr comments =
             map (noteToComment projectName) (filter (\<lambda>note. \<not> note_system note) notes)"
  using assms by (auto simp: fetchComments_def mapNotes_result split: sum.splits)

lemma getGitlabIssuesFromRepo_comments:
  assumes "getGitlabIssuesFromRepo service apiKey projectId projectName = Inr fetched"
    and "issue \<in> set fetched"
  shows "fetchComments service apiKey projectId projectName issue = Inr (issue_comments issue)"
proof -
  let ?proj = "\<lambda>issue. issue\<lparr>issue_comments := []\<rparr>"
  from assms(1) obtain issueList where
    loop: "commentsLoop service apiKey projectId projectName (map ?proj issueList) = Inr fetched"
    by (auto simp: getGitlabIssuesFromRepo_def split: sum.splits)
  from commentsLoop_result[OF loop] assms(2) obtain src cs where
    "fetchComments service apiKey projectId projectName src = Inr cs"
    "issue = src\<lparr>issue_comments := cs\<rparr>"
    by (auto simp: in_set_conv_nth list_all2_conv_all_nth)
  then show ?thesis by (simp add: fetchComments_projection)
qed

text \<open>The run of the fetcher on the small service: the system note leaves no comment.\<close>

lemma example_fetch:
  "getGitlabIssuesFromRepo (example_service 200 200 200) ''k'' 5 ''foo'' = Inr [example_fetched]"
  unfolding example_fetched_def by code_simp

text \<open>
  C8.  When the fetcher returns, the comments of every returned issue are exactly the
  conversions of those notes of the issue whose \<^verbatim>\<open>system\<close> flag is false, in the order of the
  notes: every imported comment comes from a note that is not a system note, and no system
  note contributes a comment.
\<close>

theorem system_notes_never_imported:
  assumes "getGitlabIssuesFromRepo service apiKey projectId projectName = Inr fetched"
    and "issue \<in> set fetched"
  shows "\<exists>notes. gitlabClient (issue_notes service apiKey projectId (issue_iid issue)) = Inr notes \<and>
           map Inr (issue_comments issue) =
             map (noteToComment projectName) (filter (\<lambda>note. \<not> note_system note) notes) \<and>
           (\<forall>c\<in>set (issue_comments issue).
              \<exists>note\<in>set notes. \<not> note_system note \<and> noteToComment projectName note = Inr c)"
proof -
  from getGitlabIssuesFromRepo_comments[OF assms]
  obtain ns where
    fetched_notes: "gitlabClient (issue_notes service apiKey projectId (issue_iid issue)) = Inr ns"
    and eq: "map Inr (issue_comments issue) =
      map (noteToComment projectName) (filter (\<lambda>note. \<not> note_system note) ns)"
    using fetchComments_result by blast
  have "\<exists>note\<in>set ns. \<not> note_system note \<and> noteToComment projectName note = Inr c"
    if "c \<in> set (issue_comments issue)" for c
  proof -
    from that have "(Inr c :: error + Comment) \<in> set (map Inr (issue_comments issue))" by simp
    then have "Inr c \<in> set (map (noteToComment projectName)
        (filter (\<lambda>note. \<not> note_system note) ns))"
      by (simp only: eq)
    then show ?thesis by auto
  qed
  with fetched_notes eq show ?thesis by blast
qed


theorem system_notes_never_imported_witness:
  "getGitlabIssuesFromRepo (example_service 200 200 200) ''k'' 5 ''foo'' = Inr [example_fetched] \<and>
   map comment_id (issue_comments example_fetched) = [2, 3, 4] \<and>
   (\<exists>ns. gitlabClient (issue_notes (example_service 200 200 200) ''k'' 5
                 (issue_iid example_fetched)) = Inr ns \<and>
         map Inr (issue_comments example_fetched) =
           map (noteToComment ''foo'') (filter (\<lambda>note. \<not> note_system note) ns) \<and>
         (\<forall>c\<in>set (issue_comments example_fetched).
            \<exists>note\<in>set ns. \<not> note_system note \<and> noteToComment ''foo'' note = Inr c))"
proof -
  have member: "example_fetched \<in> set [example_fetched]"
    by simp
  have ids: "map comment_id (issue_comments example_fetched) = [2, 3, 4]"
    by (simp add: example_fetched_def)
  note origin = system_notes_never_imported[OF example_fetch member]
  show ?thesis
    by (intro conjI example_fetch ids origin)
qed


section \<open>Rewriting of upload paths\<close>

lemma replace_without_occurrence: "\<not> sublist pat s \<Longrightarrow> replace s pat replacement = s"
  by (simp add: replace_def splitAtFirst_None_iff[symmetric])

lemma splitAtFirst_shortest:
  assumes "s = pre @ pat @ post"
    and "\<forall>p q. s = p @ pat @ q \<longrightarrow> length pre \<le> length p"
  shows "splitAtFirst pat s = Some (pre, post)"
proof -
  from assms(1) have "sublist pat s"
    by (auto simp: sublist_def)
  then obtain p q where found: "splitAtFirst pat s = Some (p, q)"
    using splitAtFirst_None_iff[of pat s] by (cases "splitAtFirst pat s") auto
  then have decomp: "s = p @ pat @ q"
    by (rule splitAtFirst_Some_decomp)
  from found assms(1) have "length p \<le> length pre"
    by (rule splitAtFirst_Some_first)
  moreover from assms(2) decomp have "length pre \<le> length p"
    by blast
  ultimately have "length p = length pre"
    by simp
  with decomp assms(1) have "p = pre \<and> q = post"
    by simp
  with found show ?thesis by simp
qed

lemma getSubstitution_plain:
  "CHR 0x24 \<notin> set replacement \<Longrightarrow> getSubstitution matched pre post replacement = replacement"
  by (induction matched pre post replacement rule: getSubstitution.induct) auto

lemma replace_first_occurrence:
  assumes "s = pre @ pat @ post"
    and "\<forall>p q. s = p @ pat @ q \<longrightarrow> length pre \<le> length p"
    and "CHR 0x24 \<notin> set replacement"
  shows "replace s pat replacement = pre @ replacement @ post"
  using splitAtFirst_shortest[OF assms(1,2)] assms(3)
  by (simp add: replace_def getSubstitution_plain)

text \<open>
  What the rewriting does achieve: a body without \<^verbatim>\<open>/uploads/\<close> is kept as it is, and the
  leftmost \<^verbatim>\<open>/uploads/\<close> of a body is replaced by the absolute prefix when the project name
  holds no dollar sign.
\<close>

lemma noteToComment_body:
  assumes "noteToComment projectName note = Inr c"
  shows "comment_body c = replace (note_body note) ''/uploads/''
           (''https://git.niice.nl/niicedigitalmarketing/'' @ projectName @ ''/uploads/'')"
  using assms by (auto simp: noteToComment_def Let_def split: option.splits)

lemma comment_body_unchanged:
  assumes "noteToComment projectName note = Inr c"
    and "\<not> sublist ''/uploads/'' (note_body note)"
  shows "comment_body c = note_body note"
  using assms by (simp add: noteToComment_body replace_without_occurrence)

lemma comment_body_first_path_rewritten:
  assumes "noteToComment projectName note = Inr c"
    and "note_body note = pre @ ''/uploads/'' @ post"
    and "\<forall>p q. note_body note = p @ ''/uploads/'' @ q \<longrightarrow> length pre \<le> length p"
    and "CHR 0x24 \<notin> set projectName"
  shows "comment_body c =
           pre @ ''https://git.niice.nl/niicedigitalmarketing/'' @ projectName @ ''/uploads/'' @ post"
proof -
  from assms(4) have "CHR 0x24 \<notin>
      set (''https://git.niice.nl/niicedigitalmarketing/'' @ projectName @ ''/uploads/'')"
    by simp
  with assms(2,3) have "replace (note_body note) ''/uploads/''
      (''https://git.niice.nl/niicedigitalmarketing/'' @ projectName @ ''/uploads/'') =
      pre @ (''https://git.niice.nl/niicedigitalmarketing/'' @ projectName @ ''/uploads/'') @ post"
    by (rule replace_first_occurrence)
  with assms(1) show ?thesis
    by (simp add: noteToComment_body)
qed

text \<open>A dollar pattern in the project name is expanded, not copied: \<^verbatim>\<open>a$$b\<close> yields \<^verbatim>\<open>a$b\<close>.\<close>

lemma replacement_patterns_expanded:
  "replace ''see /uploads/1/a.png'' ''/uploads/''
     (''https://git.niice.nl/niicedigitalmarketing/'' @ ''a$$b'' @ ''/uploads/'') =
   ''see https://git.niice.nl/niicedigitalmarketing/a$b/uploads/1/a.png''"
  by code_simp

text \<open>
  C6.  The body of every imported comment that holds upload-relative paths should have them
  rewritten to absolute URLs under \<^verbatim>\<open>https://git.niice.nl/niicedigitalmarketing/foo/uploads/\<close>.
  The third note of the small service has two uploaded files; \<^verbatim>\<open>replace\<close> with a string
  pattern rewrites the first path only, and the imported body still holds the relative path
  \<^verbatim>\<open>/uploads/2/b.png\<close>.
\<close>

theorem second_upload_path_not_rewritten:
  "getGitlabIssuesFromRepo (example_service 200 200 200) ''k'' 5 ''foo'' = Inr [example_fetched] \<and>
   note_body (example_notes ! 2) = ''![a](/uploads/1/a.png) ![b](/uploads/2/b.png)'' \<and>
   comment_body (issue_comments example_fetched ! 1) =
     ''![a](https://git.niice.nl/niicedigitalmarketing/foo/uploads/1/a.png) ![b](/uploads/2/b.png)''"
proof -
  have note3: "note_body (example_notes ! 2) = ''![a](/uploads/1/a.png) ![b](/uploads/2/b.png)''"
    by (simp add: example_notes_def)
  have body: "comment_body (issue_comments example_fetched ! 1) =
       ''![a](https://git.niice.nl/niicedigitalmarketing/foo/uploads/1/a.png) ![b](/uploads/2/b.png)''"
    by (simp add: example_fetched_def)
  show ?thesis
    by (intro conjI example_fetch note3 body)
qed


section \<open>The project resolver on the search results\<close>

text \<open>
  A project identifier the resolver returns is that of an entry whose path equals the name; in
  the scenario of the specification the entry \<^verbatim>\<open>foo\<close> is chosen, not \<^verbatim>\<open>bar-foo\<close>.  When no path
  equals the name, the destructuring of \<^verbatim>\<open>undefined\<close> raises before \<^verbatim>\<open>id\<close> is tested.
\<close>

lemma find_exact_path:
  "find (\<lambda>project. project_path project = projectName) projects = Some project \<Longrightarrow>
   project \<in> set projects \<and> project_path project = projectName"
  by (auto simp: find_Some_iff)

lemma selectProject_selected:
  assumes "selectProject projectName projects = Inr ident"
  shows "\<exists>project\<in>set projects. project_path project = projectName \<and> project_id project = ident"
  using assms find_exact_path[of projectName projects]
  by (auto simp: selectProject_def split: option.splits if_splits)

lemma selectProject_scenario:
  "selectProject ''foo'' [\<lparr>project_path = ''foo'', project_id = 5\<rparr>,
                          \<lparr>project_path = ''bar-foo'', project_id = 4\<rparr>] = Inr 5"
  by (simp add: selectProject_def)

lemma selectProject_no_match:
  "\<forall>project\<in>set projects. project_path project \<noteq> projectName \<Longrightarrow>
   selectProject projectName projects = Inl CannotDestructureUndefined"
proof -
  assume "\<forall>project\<in>set projects. project_path project \<noteq> projectName"
  then have "find (\<lambda>project. project_path project = projectName) projects = None"
    by (simp add: find_None_iff)
  then show ?thesis by (simp add: selectProject_def)
qed

text \<open>
  C3.  When no entry has exactly the requested path, the resolver should fail with the error
  \<^verbatim>\<open>Project <name> not found\<close>.  For the request \<^verbatim>\<open>fo\<close> the search of the small service returns
  \<^verbatim>\<open>bar-foo\<close> and \<^verbatim>\<open>foo\<close>, neither of which is \<^verbatim>\<open>fo\<close>; the resolver fails, but with the
  wrapped \<^verbatim>\<open>TypeError\<close> of the destructuring, and the not-found error is never raised.
\<close>

theorem no_exact_match_raises_type_error:
  "response_json (projects_search (example_service 200 200 200) ''k'' ''fo'') =
     [\<lparr>project_path = ''bar-foo'', project_id = 4\<rparr>, \<lparr>project_path = ''foo'', project_id = 5\<rparr>] \<and>
   getGitlabProjectId (example_service 200 200 200) ''k'' ''fo'' =
     Inl (FailedToGetProject CannotDestructureUndefined) \<and>
   getGitlabProjectId (example_service 200 200 200) ''k'' ''fo'' \<noteq>
     Inl (FailedToGetProject (ProjectNotFound ''fo''))"
  by (simp add: getGitlabProjectId_def gitlabClient_def selectProject_def example_service_def)


section \<open>The description of an imported issue\<close>

lemma assigneesLoop_issues: "result_issues (assigneesLoop assignees importData) = result_issues importData"
  by (induction assignees arbitrary: importData) auto

lemma labelsLoop_issues: "result_issues (labelsLoop labels importData) = result_issues importData"
  by (induction labels arbitrary: importData) auto

lemma issuesLoop_issues:
  "result_issues (issuesLoop issues importData) = result_issues importData @ map importedIssue issues"
  by (induction issues arbitrary: importData) (auto simp: labelsLoop_issues assigneesLoop_issues)

lemma commentsLoop_keeps_fields:
  assumes "commentsLoop service apiKey projectId projectName issues = Inr fetched"
  shows "map issue_description fetched = map issue_description issues \<and>
         map issue_web_url fetched = map issue_web_url issues"
proof -
  from commentsLoop_result[OF assms]
  have "list_all2 (\<lambda>issue f. issue_description f = issue_description issue \<and>
                               issue_web_url f = issue_web_url issue) issues fetched"
    by (rule list_all2_mono) auto
  then show ?thesis
    by (induction issues fetched rule: list_all2_induct) auto
qed

text \<open>
  C9.  When the import returns, the descriptions of the imported issues are, issue by issue,
  the description the service gave followed by a blank line and the link
  \<^verbatim>\<open>[View original issue in Gitlab](<web_url>)\<close>; this holds whatever the description is,
  the empty one included.
\<close>

theorem description_carries_backlink:
  assumes "GitLabImporter_import service projectName accessToken = Inr importData"
  shows "\<exists>projectId issueList.
           getGitlabProjectId service accessToken projectName = Inr projectId \<and>
           gitlabClient (issues_opened service accessToken projectId) = Inr issueList \<and>
           map imported_description (result_issues importData) =
             map (\<lambda>issue. issue_description issue @ [CHR 0x0A, CHR 0x0A] @
                            ''[View original issue in Gitlab]('' @ issue_web_url issue @ '')'')
               issueList"
proof -
  from assms obtain projectId fetched where
    pid: "getGitlabProjectId service accessToken projectName = Inr projectId"
    and fetch: "getGitlabIssuesFromRepo service accessToken projectId projectName = Inr fetched"
    and res: "importData = issuesLoop fetched
        \<lparr>result_issues = [], result_labels = Map.empty, result_users = Map.empty\<rparr>"
    by (auto simp: GitLabImporter_import_def split: sum.splits)
  from fetch obtain issueList where
    list: "gitlabClient (issues_opened service accessToken projectId) = Inr issueList"
    and loop: "commentsLoop service accessToken projectId projectName
        (map (\<lambda>issue. issue\<lparr>issue_comments := []\<rparr>) issueList) = Inr fetched"
    by (auto simp: getGitlabIssuesFromRepo_def split: sum.splits)
  from commentsLoop_keeps_fields[OF loop]
  have same: "map issue_description fetched = map issue_description issueList"
    "map issue_web_url fetched = map issue_web_url issueList"
    by (simp_all add: comp_def)
  have "map imported_description (result_issues importData) =
      map (\<lambda>issue. issue_description issue @ [CHR 0x0A, CHR 0x0A] @
                     ''[View original issue in Gitlab]('' @ issue_web_url issue @ '')'') fetched"
    by (simp add: res issuesLoop_issues importedIssue_def comp_def)
  also have "\<dots> = map (\<lambda>(d, u). d @ [CHR 0x0A, CHR 0x0A] @
                     ''[View original issue in Gitlab]('' @ u @ '')'')
               (zip (map issue_description fetched) (map issue_web_url fetched))"
    by (simp add: zip_map_map comp_def zip_same_conv_map)
  also have "\<dots> = map (\<lambda>(d, u). d @ [CHR 0x0A, CHR 0x0A] @
                     ''[View original issue in Gitlab]('' @ u @ '')'')
               (zip (map issue_description issueList) (map issue_web_url issueList))"
    by (simp only: same)
  also have "\<dots> = map (\<lambda>issue. issue_description issue @ [CHR 0x0A, CHR 0x0A] @
                     ''[View original issue in Gitlab]('' @ issue_web_url issue @ '')'') issueList"
    by (simp add: zip_map_map comp_def zip_same_conv_map)
  finally show ?thesis
    using pid list by blast
qed


theorem description_carries_backlink_witness:
  "\<exists>importData.
     GitLabImporter_import (example_service 200 200 200) ''foo'' ''k'' = Inr importData \<and>
     issue_description example_issue = [] \<and>
     map imported_description (result_issues importData) =
       [[CHR 0x0A, CHR 0x0A] @
        ''[View original issue in Gitlab](https://git.niice.nl/niicedigitalmarketing/foo/-/issues/7)'']"
proof -
  let ?importData = "issuesLoop [example_fetched]
      \<lparr>result_issues = [], result_labels = Map.empty, result_users = Map.empty\<rparr>"
  have pid: "getGitlabProjectId (example_service 200 200 200) ''k'' ''foo'' = Inr 5"
    by code_simp
  have run: "GitLabImporter_import (example_service 200 200 200) ''foo'' ''k'' = Inr ?importData"
    by (simp only: GitLabImporter_import_def pid example_fetch sum.case)
  from description_carries_backlink[OF run] obtain projectId issueList where
    l: "gitlabClient (issues_opened (example_service 200 200 200) ''k'' projectId) = Inr issueList"
    and d: "map imported_description (result_issues ?importData) =
             map (\<lambda>issue. issue_description issue @ [CHR 0x0A, CHR 0x0A] @
                            ''[View original issue in Gitlab]('' @ issue_web_url issue @ '')'')
               issueList"
    by blast
  from l have "issueList = [example_issue]"
    by (simp add: example_service_def gitlabClient_def)
  with d have descr: "map imported_description (result_issues ?importData) =
       [[CHR 0x0A, CHR 0x0A] @
        ''[View original issue in Gitlab](https://git.niice.nl/niicedigitalmarketing/foo/-/issues/7)'']"
    by (simp add: example_issue_def)
  have empty: "issue_description example_issue = []"
    by (simp add: example_issue_def)
  show ?thesis
    by (rule exI[of _ ?importData]) (intro conjI run empty descr)
qed

end
